theory Spec2Isabelle
  imports Main "HOL-Library.AList" "HOL-Library.Sublist"
begin

section \<open>Strings\<close>

text \<open>
  JavaScript strings are modelled as HOL strings (lists of 8-bit characters). The model
  is exact for ASCII text: \<open>toLowerCase\<close> maps \<open>A\<close>..\<open>Z\<close> to \<open>a\<close>..\<open>z\<close> and
  leaves every other character alone, and white space (what \<open>trim\<close> removes and what
  \<open>\s\<close> matches in a regular expression) is tab, line feed, vertical tab, form feed,
  carriage return and space. Characters outside ASCII are carried through unchanged.
\<close>

definition is_space :: "char \<Rightarrow> bool" where
  "is_space c \<longleftrightarrow>
     c = CHR 0x09 \<or> c = CHR 0x0A \<or> c = CHR 0x0B \<or> c = CHR 0x0C \<or> c = CHR 0x0D \<or> c = CHR '' ''"

definition lower_char :: "char \<Rightarrow> char" where
  "lower_char c =
     (case map_of (zip ''ABCDEFGHIJKLMNOPQRSTUVWXYZ'' ''abcdefghijklmnopqrstuvwxyz'') c of
        Some d \<Rightarrow> d
      | None \<Rightarrow> c)"

definition toLowerCase :: "string \<Rightarrow> string" where
  "toLowerCase s = map lower_char s"

definition trim :: "string \<Rightarrow> string" where
  "trim s = rev (dropWhile is_space (rev (dropWhile is_space s)))"

text \<open>\<open>s.startsWith(t)\<close> and \<open>s.includes(t)\<close>.\<close>

fun startsWith :: "string \<Rightarrow> string \<Rightarrow> bool" where
  "startsWith s [] = True"
| "startsWith [] (c # cs) = False"
| "startsWith (x # xs) (c # cs) = (x = c \<and> startsWith xs cs)"

fun str_includes :: "string \<Rightarrow> string \<Rightarrow> bool" where
  "str_includes [] t = (t = [])"
| "str_includes (x # xs) t = (startsWith (x # xs) t \<or> str_includes xs t)"

section \<open>Safety policy: \<open>validateCommand\<close>\<close>

record validation =
  safe :: bool
  reason :: "string option"

definition DANGEROUS_COMMANDS :: "string list" where
  "DANGEROUS_COMMANDS =
     [''rm -rf /'', ''mkfs'', ''dd if='', ''shutdown'', ''reboot'', ''halt'', ''init 0'',
      ''init 6'', '':(){ :|:& };:'', ''chmod -R 777 /'', ''chown -R root /'']"

definition systemCommands :: "string list" where
  "systemCommands = [''passwd'', ''usermod'', ''userdel'', ''groupmod'']"

text \<open>
  The \<open>for\<close> loop over the deny-list: it returns at the first entry whose lower-cased
  form occurs in the lower-cased command.
\<close>

fun dangerous_loop :: "string list \<Rightarrow> string \<Rightarrow> string option" where
  "dangerous_loop [] lowerCommand = None"
| "dangerous_loop (dangerous # rest) lowerCommand =
     (if str_includes lowerCommand (toLowerCase dangerous) then Some dangerous
      else dangerous_loop rest lowerCommand)"

definition validateCommand :: "string \<Rightarrow> validation" where
  "validateCommand command =
     (let lowerCommand = trim (toLowerCase command) in
      case dangerous_loop DANGEROUS_COMMANDS lowerCommand of
        Some dangerous \<Rightarrow>
          \<lparr>safe = False, reason = Some (''Dangerous command detected: '' @ dangerous)\<rparr>
      | None \<Rightarrow>
          if str_includes lowerCommand ''sudo su'' \<or> str_includes lowerCommand ''su -''
          then \<lparr>safe = False, reason = Some ''Privilege escalation not allowed''\<rparr>
          else if list_ex (\<lambda>cmd. startsWith lowerCommand cmd) systemCommands
          then \<lparr>safe = False,
                reason = Some ''System modification commands require explicit permission''\<rparr>
          else \<lparr>safe = True, reason = None\<rparr>)"

text \<open>
  The policy as the specification words it: a command is rejected when its lower-cased,
  trimmed form contains a deny-list entry (compared case-insensitively) or one of the two
  privilege-escalation substrings, or when its leading token, the text up to the first
  white space, is one of the four account-modification commands.
\<close>

definition leading_token :: "string \<Rightarrow> string" where
  "leading_token s = takeWhile (\<lambda>c. \<not> is_space c) s"

definition spec_rejects :: "string \<Rightarrow> bool" where
  "spec_rejects c =
     (let lc = trim (toLowerCase c) in
      list_ex (\<lambda>d. sublist (toLowerCase d) lc) DANGEROUS_COMMANDS
      \<or> sublist ''sudo su'' lc \<or> sublist ''su -'' lc
      \<or> leading_token lc \<in> set systemCommands)"

text \<open>The policy the code implements: the last clause is a prefix test.\<close>

definition policy_rejects :: "string \<Rightarrow> bool" where
  "policy_rejects c =
     (let lc = trim (toLowerCase c) in
      list_ex (\<lambda>d. sublist (toLowerCase d) lc) DANGEROUS_COMMANDS
      \<or> sublist ''sudo su'' lc \<or> sublist ''su -'' lc
      \<or> list_ex (\<lambda>p. prefix p lc) systemCommands)"

section \<open>JavaScript values\<close>

text \<open>
  The values that \<open>JSON.parse\<close> delivers and that the engine stores in fields whose
  declared type the run time does not enforce. A property that is absent reads as
  \<open>undefined\<close>, modelled by \<open>None\<close>. Numbers are restricted to integers: the engine
  only tests them for truthiness and hands them on.
\<close>

datatype json =
  JNull | JBool bool | JNum int | JStr string | JArr "json list" | JObj "(string \<times> json) list"

fun truthy :: "json option \<Rightarrow> bool" where
  "truthy None = False"
| "truthy (Some JNull) = False"
| "truthy (Some (JBool b)) = b"
| "truthy (Some (JNum n)) = (n \<noteq> 0)"
| "truthy (Some (JStr s)) = (s \<noteq> [])"
| "truthy (Some (JArr xs)) = True"
| "truthy (Some (JObj kvs)) = True"

text \<open>Reading property \<open>k\<close> of a value; on \<open>null\<close> the read throws a \<open>TypeError\<close>.\<close>

definition apostrophe :: string where
  "apostrophe = [CHR 0x27]"

fun get_property :: "json \<Rightarrow> string \<Rightarrow> string + json option" where
  "get_property JNull k =
     Inl (''Cannot read properties of null (reading '' @ apostrophe @ k @ apostrophe @ '')'')"
| "get_property (JObj kvs) k = Inr (map_of kvs k)"
| "get_property v k = Inr None"

text \<open>Decimal digits of a number, and \<open>String(v)\<close> as a template literal applies it.\<close>

function show_nat :: "nat \<Rightarrow> string" where
  "show_nat n =
     (if n < 10 then [''0123456789'' ! n]
      else show_nat (n div 10) @ [''0123456789'' ! (n mod 10)])"
  by pat_completeness auto
termination
  by (relation "measure id") auto

declare show_nat.simps [simp del]

definition show_int :: "int \<Rightarrow> string" where
  "show_int i = (if i < 0 then ''-'' @ show_nat (nat (- i)) else show_nat (nat i))"

fun join :: "string \<Rightarrow> string list \<Rightarrow> string" where
  "join sep [] = []"
| "join sep [x] = x"
| "join sep (x # y # ys) = x @ sep @ join sep (y # ys)"

fun js_string :: "json \<Rightarrow> string" where
  "js_string JNull = ''null''"
| "js_string (JBool b) = (if b then ''true'' else ''false'')"
| "js_string (JNum n) = show_int n"
| "js_string (JStr s) = s"
| "js_string (JArr xs) = join '','' (map (\<lambda>x. if x = JNull then [] else js_string x) xs)"
| "js_string (JObj kvs) = ''[object Object]''"

text \<open>The own properties that a spread \<open>{...v}\<close> copies.\<close>

fun spread :: "json \<Rightarrow> (string \<times> json) list" where
  "spread (JObj kvs) = kvs"
| "spread (JArr xs) = zip (map show_nat [0..<length xs]) xs"
| "spread (JStr s) = zip (map show_nat [0..<length s]) (map (\<lambda>c. JStr [c]) s)"
| "spread v = []"

text \<open>\<open>s.split(sep)\<close> for a separator of one character.\<close>

fun split_on :: "char \<Rightarrow> string \<Rightarrow> string list" where
  "split_on sep [] = [[]]"
| "split_on sep (c # cs) =
     (if c = sep then [] # split_on sep cs
      else (case split_on sep cs of
              w # ws \<Rightarrow> (c # w) # ws
            | [] \<Rightarrow> [[c]]))"

section \<open>Engine state and environment\<close>

datatype signal = SIGTERM | SIGKILL

text \<open>The two fields of a \<open>ChildProcess\<close> handle that the engine reads.\<close>

record ChildProcess =
  pid :: "nat option"
  killed :: bool

text \<open>
  The closures handed to \<open>setTimeout\<close>. Each captures the process id and the child
  that was spawned under that id.
\<close>

datatype timer_callback = TimeoutKill string | GraceKill string

text \<open>
  The module state: the \<open>activeProcesses\<close> map (a JavaScript \<open>Map\<close>, which keeps
  insertion order, hence an association list) and \<open>processCounter\<close>; and two logs of
  effects: every \<open>setTimeout(callback, delay)\<close> the engine has issued, and every
  \<open>kill(signal)\<close> on a child that has returned, named by the child's process id. The
  code never cancels a timer.
\<close>

record engine_state =
  activeProcesses :: "(string \<times> ChildProcess) list"
  processCounter :: nat
  timers :: "(json \<times> timer_callback) list"
  signals :: "(string \<times> signal) list"

record exec_error =
  err_code :: "json option"
  err_message :: string

record exec_options =
  exec_cwd :: string
  exec_timeout :: json
  exec_maxBuffer :: nat
  exec_env :: "(string \<times> json) list"

datatype stdio = Pipe

record spawn_options =
  spawn_cwd :: string
  spawn_env :: "(string \<times> json) list"
  spawn_stdio :: "stdio list"

text \<open>
  What the run time reports for one \<open>child_process.exec\<close> call: it throws at once, or
  it returns a child and later calls back with \<open>(error, stdout, stderr)\<close>. For one
  \<open>child_process.spawn\<close> call: it throws at once, or it returns a child that emits data
  chunks on its two streams and then \<open>close\<close> with an exit code (\<open>null\<close> when a signal
  ended it) or \<open>error\<close>.
\<close>

datatype exec_outcome =
  ExecThrew string
| ExecCallback ChildProcess "exec_error option" string string

datatype finish = Close json | Error string

datatype spawn_outcome =
  SpawnThrew string
| SpawnRan ChildProcess "string list" "string list" finish

datatype kill_outcome = Delivered | NotDelivered | KillThrew string

text \<open>
  Everything outside the module is a parameter: the configured base directory, the
  process environment, \<open>path.resolve\<close>, the check-and-create of the working directory
  (\<open>Some m\<close> when it throws with message \<open>m\<close>), the two ways to start a child (the first
  argument numbers the invocation, so that the same command may behave differently
  each time), \<open>kill\<close> on a child, the clock (\<open>Date.now() - startTime\<close> when the result of
  the given process id is built) and \<open>JSON.parse\<close> (\<open>Inl m\<close> when it throws).
\<close>

record environment =
  TERMINAL_BASE_DIR :: string
  process_env :: "(string \<times> json) list"
  path_resolve :: "string \<Rightarrow> string"
  ensure_dir :: "nat \<Rightarrow> string \<Rightarrow> string option"
  run_exec :: "nat \<Rightarrow> string \<Rightarrow> exec_options \<Rightarrow> exec_outcome"
  run_spawn :: "nat \<Rightarrow> string \<Rightarrow> string list \<Rightarrow> spawn_options \<Rightarrow> spawn_outcome"
  os_kill :: "string \<Rightarrow> signal \<Rightarrow> kill_outcome"
  elapsed :: "string \<Rightarrow> nat"
  JSON_parse :: "string \<Rightarrow> string + json"

definition MAX_COMMAND_TIMEOUT :: int where
  "MAX_COMMAND_TIMEOUT = 30000"

definition MAX_OUTPUT_SIZE :: nat where
  "MAX_OUTPUT_SIZE = 1024 * 1024"

record TerminalResult =
  success :: bool
  stdout :: string
  stderr :: string
  exitCode :: json
  executionTime :: nat
  processId :: "string option"
  workingDir :: json

section \<open>Process registry\<close>

text \<open>The four emoji of the status messages, as their UTF-8 bytes.\<close>

definition cross_mark :: string where
  "cross_mark = [CHR 0xE2, CHR 0x9D, CHR 0x8C]"

definition check_mark :: string where
  "check_mark = [CHR 0xE2, CHR 0x9C, CHR 0x85]"

definition clipboard :: string where
  "clipboard = [CHR 0xF0, CHR 0x9F, CHR 0x93, CHR 0x8B]"

definition arrows :: string where
  "arrows = [CHR 0xF0, CHR 0x9F, CHR 0x94, CHR 0x84]"

text \<open>
  \<open>child.kill(signal)\<close> on the child spawned under \<open>procId\<close>. The call is logged;
  a delivered signal sets the handle's \<open>killed\<close> flag, which is visible through the
  registry while the entry is there, since the registry holds the same object.
\<close>

definition child_kill ::
  "environment \<Rightarrow> string \<Rightarrow> signal \<Rightarrow> engine_state \<Rightarrow> string + engine_state" where
  "child_kill env procId sig st =
     (case os_kill env procId sig of
        KillThrew msg \<Rightarrow> Inl msg
      | NotDelivered \<Rightarrow> Inr (st\<lparr>signals := signals st @ [(procId, sig)]\<rparr>)
      | Delivered \<Rightarrow>
          Inr (st\<lparr>signals := signals st @ [(procId, sig)],
                  activeProcesses :=
                    AList.map_entry procId (\<lambda>p. p\<lparr>killed := True\<rparr>) (activeProcesses st)\<rparr>))"

text \<open>
  A timer callback runs. Both callbacks signal the child only while its id is still in
  the registry; the first one also schedules the second, 5000 ms later. \<open>Inl\<close> is an
  exception that escapes the callback.
\<close>

fun fire :: "environment \<Rightarrow> timer_callback \<Rightarrow> engine_state \<Rightarrow> string + engine_state" where
  "fire env (TimeoutKill procId) st =
     (if map_of (activeProcesses st) procId \<noteq> None then
        (case child_kill env procId SIGTERM st of
           Inl msg \<Rightarrow> Inl msg
         | Inr st1 \<Rightarrow> Inr (st1\<lparr>timers := timers st1 @ [(JNum 5000, GraceKill procId)]\<rparr>))
      else Inr st)"
| "fire env (GraceKill procId) st =
     (if map_of (activeProcesses st) procId \<noteq> None then child_kill env procId SIGKILL st
      else Inr st)"

text \<open>
  \<open>killProcess\<close>. The registry is keyed by strings, so an id that is not a string finds
  nothing. After the \<open>SIGTERM\<close> the grace timer is scheduled and then the entry is
  deleted, all before the function returns.
\<close>

definition killProcess :: "environment \<Rightarrow> engine_state \<Rightarrow> json \<Rightarrow> string \<times> engine_state" where
  "killProcess env st procId =
     (case (case procId of JStr s \<Rightarrow> map_of (activeProcesses st) s | _ \<Rightarrow> None) of
        None \<Rightarrow>
          (cross_mark @ '' Process '' @ js_string procId
             @ '' not found or already terminated'', st)
      | Some process \<Rightarrow>
          (case child_kill env (js_string procId) SIGTERM st of
             Inl msg \<Rightarrow>
               (cross_mark @ '' Failed to kill process '' @ js_string procId @ '': '' @ msg,
                st)
           | Inr st1 \<Rightarrow>
               (let st2 = st1\<lparr>timers :=
                               timers st1 @ [(JNum 5000, GraceKill (js_string procId))]\<rparr>;
                    st3 = st2\<lparr>activeProcesses :=
                               AList.delete (js_string procId) (activeProcesses st2)\<rparr>
                in (check_mark @ '' Process '' @ js_string procId @ '' terminated'', st3))))"

definition process_line :: "string \<times> ChildProcess \<Rightarrow> string" where
  "process_line entry =
     arrows @ '' '' @ fst entry @ '': PID ''
       @ (case pid (snd entry) of None \<Rightarrow> ''undefined'' | Some n \<Rightarrow> show_nat n)
       @ '' ('' @ (if killed (snd entry) then ''killed'' else ''running'') @ '')''"

definition newline :: string where
  "newline = [CHR 0x0A]"

definition listActiveProcesses :: "engine_state \<Rightarrow> string" where
  "listActiveProcesses st =
     (if length (activeProcesses st) = 0 then clipboard @ '' No active processes''
      else clipboard @ '' Active Processes:'' @ newline
             @ join newline (map process_line (activeProcesses st)))"

section \<open>Command runner\<close>

text \<open>
  The result that the callback of \<open>exec\<close> builds from \<open>(error, stdout, stderr)\<close>:
  \<open>success\<close> is \<open>!error || error.code === 0\<close> and \<open>exitCode\<close> is
  \<open>error ? error.code || -1 : 0\<close>.
\<close>

definition exec_result ::
  "nat \<Rightarrow> string \<Rightarrow> string \<Rightarrow> exec_error option \<Rightarrow> string \<Rightarrow> string \<Rightarrow> TerminalResult" where
  "exec_result time procId dir error out err =
     \<lparr>success = (case error of None \<Rightarrow> True | Some e \<Rightarrow> err_code e = Some (JNum 0)),
      stdout = (if out \<noteq> [] then out else []),
      stderr = (if err \<noteq> [] then err
                else (case error of Some e \<Rightarrow> err_message e | None \<Rightarrow> [])),
      exitCode = (case error of
                    Some e \<Rightarrow> (if truthy (err_code e) then the (err_code e) else JNum (- 1))
                  | None \<Rightarrow> JNum 0),
      executionTime = time,
      processId = Some procId,
      workingDir = JStr dir\<rparr>"

text \<open>The options that \<open>executeNonInteractiveCommand\<close> passes to \<open>exec\<close>.\<close>

definition exec_call :: "environment \<Rightarrow> string \<Rightarrow> json \<Rightarrow> json \<Rightarrow> exec_options" where
  "exec_call env dir timeout envv =
     \<lparr>exec_cwd = dir, exec_timeout = timeout, exec_maxBuffer = MAX_OUTPUT_SIZE,
      exec_env = AList.merge (process_env env) (spread envv)\<rparr>"

text \<open>
  \<open>executeNonInteractiveCommand\<close>, from the call of \<open>exec\<close> to the resolution of the
  promise: the child is registered and the timeout timer scheduled; the callback removes
  the entry and builds the result. When \<open>exec\<close> throws, the promise is rejected (\<open>Inl\<close>).
  Timers that run while the promise is pending act through \<open>fire\<close>, which leaves the
  registry's keys and the counter alone.
\<close>

definition executeNonInteractiveCommand ::
  "environment \<Rightarrow> engine_state \<Rightarrow> string \<Rightarrow> string \<Rightarrow> string \<Rightarrow> json \<Rightarrow> json
     \<Rightarrow> (string + TerminalResult) \<times> engine_state" where
  "executeNonInteractiveCommand env st command dir procId timeout envv =
     (case run_exec env (processCounter st) command (exec_call env dir timeout envv) of
        ExecThrew msg \<Rightarrow> (Inl msg, st)
      | ExecCallback childProcess error out err \<Rightarrow>
          (let st1 = st\<lparr>activeProcesses :=
                         AList.update procId childProcess (activeProcesses st)\<rparr>;
               st2 = st1\<lparr>timers := timers st1 @ [(timeout, TimeoutKill procId)]\<rparr>;
               st3 = st2\<lparr>activeProcesses := AList.delete procId (activeProcesses st2)\<rparr>
           in (Inr (exec_result (elapsed env procId) procId dir error out err), st3)))"

text \<open>
  What \<open>executeInteractiveCommand\<close> passes to \<open>spawn\<close>: the command split at every
  space, the first piece as the file to run and the others as its arguments, with no
  \<open>shell\<close> option.
\<close>

definition spawn_call ::
  "environment \<Rightarrow> string \<Rightarrow> string \<Rightarrow> json \<Rightarrow> string \<times> string list \<times> spawn_options" where
  "spawn_call env command dir envv =
     (let args = split_on CHR '' '' command;
          cmd = hd args;
          args = tl args
      in (cmd, args,
          \<lparr>spawn_cwd = dir, spawn_env = AList.merge (process_env env) (spread envv),
           spawn_stdio = [Pipe, Pipe, Pipe]\<rparr>))"

text \<open>The \<open>data\<close> handlers: \<open>stdout += data.toString()\<close>, chunk after chunk.\<close>

definition accumulate :: "string list \<Rightarrow> string" where
  "accumulate chunks = foldl (\<lambda>acc data. acc @ data) [] chunks"

definition executeInteractiveCommand ::
  "environment \<Rightarrow> engine_state \<Rightarrow> string \<Rightarrow> string \<Rightarrow> string \<Rightarrow> json \<Rightarrow> json
     \<Rightarrow> (string + TerminalResult) \<times> engine_state" where
  "executeInteractiveCommand env st command dir procId timeout envv =
     (case spawn_call env command dir envv of (cmd, args, opts) \<Rightarrow>
      (case run_spawn env (processCounter st) cmd args opts of
         SpawnThrew msg \<Rightarrow> (Inl msg, st)
       | SpawnRan childProcess outs errs fin \<Rightarrow>
           (let st1 = st\<lparr>activeProcesses :=
                          AList.update procId childProcess (activeProcesses st)\<rparr>;
                st2 = st1\<lparr>timers := timers st1 @ [(timeout, TimeoutKill procId)]\<rparr>;
                st3 = st2\<lparr>activeProcesses := AList.delete procId (activeProcesses st2)\<rparr>
            in (Inr (case fin of
                       Close code \<Rightarrow>
                         \<lparr>success = (code = JNum 0), stdout = accumulate outs,
                          stderr = accumulate errs, exitCode = code,
                          executionTime = elapsed env procId, processId = Some procId,
                          workingDir = JStr dir\<rparr>
                     | Error msg \<Rightarrow>
                         \<lparr>success = False, stdout = accumulate outs, stderr = msg,
                          exitCode = JNum (- 1), executionTime = elapsed env procId,
                          processId = Some procId, workingDir = JStr dir\<rparr>),
                st3))))"

text \<open>\<open>validateWorkingDir\<close>: \<open>path.resolve\<close> throws on anything but a string.\<close>

definition validateWorkingDir :: "environment \<Rightarrow> json \<Rightarrow> string + string" where
  "validateWorkingDir env dir =
     (case dir of
        JStr s \<Rightarrow> Inr (path_resolve env s)
      | _ \<Rightarrow> Inl (''Invalid working directory: '' @ js_string dir))"

text \<open>
  \<open>executeTerminalCommand(command, options)\<close>. The options are the properties of the
  parsed block (or none); a default applies where a property is \<open>undefined\<close>. The
  command is whatever the block carried: \<open>validateCommand\<close> throws on a value that is
  not a string. \<open>Inl\<close> is an exception that leaves the function; everything from the
  directory check on is inside its \<open>try\<close>.
\<close>

definition failure :: "string \<Rightarrow> nat \<Rightarrow> string option \<Rightarrow> json \<Rightarrow> TerminalResult" where
  "failure msg time procId dir =
     \<lparr>success = False, stdout = [], stderr = msg, exitCode = JNum (- 1),
      executionTime = time, processId = procId, workingDir = dir\<rparr>"

definition default_to :: "json \<Rightarrow> json option \<Rightarrow> json" where
  "default_to d v = (case v of None \<Rightarrow> d | Some x \<Rightarrow> x)"

definition executeTerminalCommand ::
  "environment \<Rightarrow> engine_state \<Rightarrow> json \<Rightarrow> (string \<times> json) list
     \<Rightarrow> (string + TerminalResult) \<times> engine_state" where
  "executeTerminalCommand env st command options =
     (let st1 = st\<lparr>processCounter := processCounter st + 1\<rparr>;
          procId = ''proc_'' @ show_nat (processCounter st1);
          dir = default_to (JStr (TERMINAL_BASE_DIR env)) (map_of options ''workingDir'');
          timeout = default_to (JNum MAX_COMMAND_TIMEOUT) (map_of options ''timeout'');
          envv = default_to (JObj []) (map_of options ''env'');
          interactive = default_to (JBool False) (map_of options ''interactive'')
      in case command of
           JStr c \<Rightarrow>
             (let validation = validateCommand c in
              if \<not> safe validation then
                (Inr (failure (if truthy (map_option JStr (reason validation))
                               then the (reason validation) else ''Command not allowed'')
                        (elapsed env procId) (Some procId) dir), st1)
              else
                (case validateWorkingDir env dir of
                   Inl msg \<Rightarrow> (Inl msg, st1)
                 | Inr validatedWorkingDir \<Rightarrow>
                     (case ensure_dir env (processCounter st1) validatedWorkingDir of
                        Some msg \<Rightarrow>
                          (Inr (failure msg (elapsed env procId) (Some procId)
                                  (JStr validatedWorkingDir)), st1)
                      | None \<Rightarrow>
                          (case (if truthy (Some interactive)
                                 then executeInteractiveCommand env st1 c validatedWorkingDir
                                        procId timeout envv
                                 else executeNonInteractiveCommand env st1 c
                                        validatedWorkingDir procId timeout envv) of
                             (Inl msg, st2) \<Rightarrow>
                               (Inr (failure msg (elapsed env procId) (Some procId)
                                       (JStr validatedWorkingDir)), st2)
                           | (Inr result, st2) \<Rightarrow> (Inr result, st2)))))
         | _ \<Rightarrow> (Inl ''command.toLowerCase is not a function'', st1))"

section \<open>Directive parser: the two regular expressions\<close>

text \<open>
  The two patterns are
  \<^verbatim>\<open>/```(?:terminal|bash|shell|cmd)\s*({[\s\S]*?})\s*```/g\<close> and
  \<^verbatim>\<open>/```(?:terminal|bash|shell|cmd)\s*\n([\s\S]*?)\n```/g\<close>.
  Each piece of a pattern is a function that takes the matcher of what follows it, so
  that the order in which a backtracking engine tries the alternatives is kept: the
  tags in the order written, \<open>\s*\<close> from the longest run of white space down to none,
  \<open>[\s\S]*?\<close> from no character up. A matcher returns what it yields together with
  the text left after the match.
\<close>

fun strip_prefix :: "string \<Rightarrow> string \<Rightarrow> string option" where
  "strip_prefix [] s = Some s"
| "strip_prefix (p # ps) [] = None"
| "strip_prefix (p # ps) (c # cs) = (if p = c then strip_prefix ps cs else None)"

fun first_some :: "('a \<Rightarrow> 'b option) \<Rightarrow> 'a list \<Rightarrow> 'b option" where
  "first_some f [] = None"
| "first_some f (x # xs) = (case f x of Some y \<Rightarrow> Some y | None \<Rightarrow> first_some f xs)"

definition fence :: string where
  "fence = ''```''"

definition block_tags :: "string list" where
  "block_tags = [''terminal'', ''bash'', ''shell'', ''cmd'']"

definition open_block :: "(string \<Rightarrow> 'a option) \<Rightarrow> string \<Rightarrow> 'a option" where
  "open_block k s =
     (case strip_prefix fence s of
        None \<Rightarrow> None
      | Some r \<Rightarrow>
          first_some (\<lambda>tag. case strip_prefix tag r of None \<Rightarrow> None | Some r' \<Rightarrow> k r')
            block_tags)"

fun greedy_spaces :: "(string \<Rightarrow> 'a option) \<Rightarrow> string \<Rightarrow> 'a option" where
  "greedy_spaces k [] = k []"
| "greedy_spaces k (c # cs) =
     (if is_space c then
        (case greedy_spaces k cs of Some r \<Rightarrow> Some r | None \<Rightarrow> k (c # cs))
      else k (c # cs))"

fun lazy_any :: "(string \<Rightarrow> 'a option) \<Rightarrow> string \<Rightarrow> (string \<times> 'a) option" where
  "lazy_any k [] = (case k [] of Some r \<Rightarrow> Some ([], r) | None \<Rightarrow> None)"
| "lazy_any k (c # cs) =
     (case k (c # cs) of
        Some r \<Rightarrow> Some ([], r)
      | None \<Rightarrow> (case lazy_any k cs of Some (w, r) \<Rightarrow> Some (c # w, r) | None \<Rightarrow> None))"

text \<open>One attempt at a position: the captured group and the text after the match.\<close>

definition close_json :: "string \<Rightarrow> string option" where
  "close_json s =
     (case s of
        c # cs \<Rightarrow> if c = CHR ''}'' then greedy_spaces (strip_prefix fence) cs else None
      | [] \<Rightarrow> None)"

definition match_json :: "string \<Rightarrow> (string \<times> string) option" where
  "match_json s =
     open_block
       (greedy_spaces
          (\<lambda>s1. case s1 of
                   c # s2 \<Rightarrow>
                     if c = CHR ''{'' then
                       (case lazy_any close_json s2 of
                          Some (body, rest) \<Rightarrow> Some (''{'' @ body @ ''}'', rest)
                        | None \<Rightarrow> None)
                     else None
                 | [] \<Rightarrow> None))
       s"

definition match_simple :: "string \<Rightarrow> (string \<times> string) option" where
  "match_simple s =
     open_block
       (greedy_spaces
          (\<lambda>s1. case s1 of
                   c # s2 \<Rightarrow>
                     if c = CHR 0x0A then lazy_any (strip_prefix (CHR 0x0A # fence)) s2
                     else None
                 | [] \<Rightarrow> None))
       s"

text \<open>
  The loop \<open>while ((match = regex.exec(text)) !== null)\<close> of a global pattern: the
  leftmost match from \<open>lastIndex\<close> on, then again from the end of that match. The
  function walks the text once; \<open>skip\<close> counts the characters still inside the last
  match and \<open>i\<close> is the index of the position. It returns, for each match, where it
  starts and its captured group.
\<close>

fun regex_exec_all ::
  "(string \<Rightarrow> (string \<times> string) option) \<Rightarrow> nat \<Rightarrow> nat \<Rightarrow> string \<Rightarrow> (nat \<times> string) list" where
  "regex_exec_all m skip i [] = []"
| "regex_exec_all m skip i (c # cs) =
     (if skip > 0 then regex_exec_all m (skip - 1) (Suc i) cs
      else (case m (c # cs) of
              None \<Rightarrow> regex_exec_all m 0 (Suc i) cs
            | Some (capture, rest) \<Rightarrow>
                (i, capture) # regex_exec_all m (length cs - length rest) (Suc i) cs))"

definition structured_blocks :: "string \<Rightarrow> (nat \<times> string) list" where
  "structured_blocks text = regex_exec_all match_json 0 0 text"

definition plain_blocks :: "string \<Rightarrow> (nat \<times> string) list" where
  "plain_blocks text = regex_exec_all match_simple 0 0 text"

section \<open>Command dispatcher\<close>

definition properties :: "json \<Rightarrow> (string \<times> json) list" where
  "properties v = (case v of JObj kvs \<Rightarrow> kvs | _ \<Rightarrow> [])"

text \<open>
  The \<open>switch\<close> on the lower-cased operation. Its cases are \<open>execute\<close>,
  \<open>interactive\<close>, \<open>kill\<close> and \<open>list_processes\<close>; anything else is the default.
\<close>

definition run_operation ::
  "environment \<Rightarrow> engine_state \<Rightarrow> (string \<times> json) list \<Rightarrow> string
     \<Rightarrow> (string + TerminalResult) \<times> engine_state" where
  "run_operation env st command operation =
     (let verb = toLowerCase operation;
          base = JStr (TERMINAL_BASE_DIR env)
      in if verb = ''execute'' then
           (if \<not> truthy (map_of command ''command'') then
              (Inr (failure ''Execute operation requires command'' 0 None base), st)
            else executeTerminalCommand env st (the (map_of command ''command'')) command)
         else if verb = ''interactive'' then
           (if \<not> truthy (map_of command ''command'') then
              (Inr (failure ''Interactive operation requires command'' 0 None base), st)
            else executeTerminalCommand env st (the (map_of command ''command''))
                   (AList.update ''interactive'' (JBool True) command))
         else if verb = ''kill'' then
           (if \<not> truthy (map_of command ''processId'') then
              (Inr (failure ''Kill operation requires processId'' 0 None base), st)
            else (case killProcess env st (the (map_of command ''processId'')) of
                    (killResult, st1) \<Rightarrow>
                      (Inr \<lparr>success = (\<not> str_includes killResult cross_mark),
                            stdout = killResult, stderr = [],
                            exitCode = (if str_includes killResult cross_mark then JNum (- 1)
                                        else JNum 0),
                            executionTime = 0, processId = None, workingDir = base\<rparr>,
                       st1)))
         else if verb = ''list_processes'' then
           (Inr \<lparr>success = True, stdout = listActiveProcesses st, stderr = [],
                 exitCode = JNum 0, executionTime = 0, processId = None, workingDir = base\<rparr>,
            st)
         else
           (Inr (failure (''Unknown terminal operation: '' @ operation) 0 None base), st))"

text \<open>The body of the \<open>try\<close> for one structured block; \<open>Inl\<close> is what it throws.\<close>

definition try_block ::
  "environment \<Rightarrow> engine_state \<Rightarrow> string \<Rightarrow> (string + TerminalResult) \<times> engine_state" where
  "try_block env st capture =
     (let jsonStr = trim capture in
      case JSON_parse env jsonStr of
        Inl msg \<Rightarrow> (Inl msg, st)
      | Inr command \<Rightarrow>
          (case get_property command ''operation'' of
             Inl msg \<Rightarrow> (Inl msg, st)
           | Inr operation \<Rightarrow>
               if \<not> truthy operation then
                 (Inr (failure ''Invalid terminal command: missing operation'' 0 None
                         (JStr (TERMINAL_BASE_DIR env))), st)
               else (case operation of
                       Some (JStr op) \<Rightarrow> run_operation env st (properties command) op
                     | _ \<Rightarrow> (Inl ''command.operation.toLowerCase is not a function'', st))))"

text \<open>The \<open>try\<close> with its \<open>catch\<close>: one result for the block, whatever happened.\<close>

definition handle_block ::
  "environment \<Rightarrow> engine_state \<Rightarrow> string \<Rightarrow> TerminalResult \<times> engine_state" where
  "handle_block env st capture =
     (case try_block env st capture of
        (Inr result, st1) \<Rightarrow> (result, st1)
      | (Inl msg, st1) \<Rightarrow>
          (failure (''Terminal command error: '' @ msg) 0 None (JStr (TERMINAL_BASE_DIR env)),
           st1))"

fun json_loop ::
  "environment \<Rightarrow> TerminalResult list \<times> engine_state \<Rightarrow> string list
     \<Rightarrow> TerminalResult list \<times> engine_state" where
  "json_loop env (results, st) [] = (results, st)"
| "json_loop env (results, st) (capture # captures) =
     (case handle_block env st capture of
        (result, st1) \<Rightarrow> json_loop env (results @ [result], st1) captures)"

text \<open>
  A plain block: the lines of the trimmed body that are neither blank nor a comment,
  each run, trimmed, with no options. Nothing catches here, so an exception of
  \<open>executeTerminalCommand\<close> would leave the whole function (\<open>Inl\<close>).
\<close>

definition block_lines :: "string \<Rightarrow> string list" where
  "block_lines capture =
     filter (\<lambda>cmd. trim cmd \<noteq> [] \<and> \<not> startsWith (trim cmd) ''#'')
       (split_on CHR 0x0A (trim capture))"

fun command_loop ::
  "environment \<Rightarrow> TerminalResult list \<times> engine_state \<Rightarrow> string list
     \<Rightarrow> (string + TerminalResult list) \<times> engine_state" where
  "command_loop env (results, st) [] = (Inr results, st)"
| "command_loop env (results, st) (cmd # cmds) =
     (let cleanCmd = trim cmd in
      if cleanCmd \<noteq> [] then
        (case executeTerminalCommand env st (JStr cleanCmd) [] of
           (Inl msg, st1) \<Rightarrow> (Inl msg, st1)
         | (Inr result, st1) \<Rightarrow> command_loop env (results @ [result], st1) cmds)
      else command_loop env (results, st) cmds)"

fun simple_loop ::
  "environment \<Rightarrow> TerminalResult list \<times> engine_state \<Rightarrow> string list
     \<Rightarrow> (string + TerminalResult list) \<times> engine_state" where
  "simple_loop env (results, st) [] = (Inr results, st)"
| "simple_loop env (results, st) (capture # captures) =
     (case command_loop env (results, st) (block_lines capture) of
        (Inl msg, st1) \<Rightarrow> (Inl msg, st1)
      | (Inr results1, st1) \<Rightarrow> simple_loop env (results1, st1) captures)"

definition executeTerminalCommands ::
  "environment \<Rightarrow> engine_state \<Rightarrow> string \<Rightarrow> (string + TerminalResult list) \<times> engine_state" where
  "executeTerminalCommands env st responseText =
     simple_loop env
       (json_loop env ([], st) (map snd (structured_blocks responseText)))
       (map snd (plain_blocks responseText))"

section \<open>The dispatcher over a sequence of operations\<close>

text \<open>
  The operations that the two loops work through: a structured block, given by its
  captured text, or one command line of a plain block. \<open>perform\<close> is what the loops do
  for one operation, \<open>dispatch\<close> runs a sequence in order and \<open>parse\<close> is the sequence
  that a text stands for.
\<close>

datatype operation = StructuredBlock string | PlainCommand string

fun perform ::
  "environment \<Rightarrow> engine_state \<Rightarrow> operation \<Rightarrow> (string + TerminalResult) \<times> engine_state" where
  "perform env st (StructuredBlock capture) =
     (case handle_block env st capture of (result, st1) \<Rightarrow> (Inr result, st1))"
| "perform env st (PlainCommand c) = executeTerminalCommand env st (JStr c) []"

fun dispatch ::
  "environment \<Rightarrow> engine_state \<Rightarrow> operation list
     \<Rightarrow> (string + TerminalResult list) \<times> engine_state" where
  "dispatch env st [] = (Inr [], st)"
| "dispatch env st (operation # operations) =
     (case perform env st operation of
        (Inl msg, st1) \<Rightarrow> (Inl msg, st1)
      | (Inr result, st1) \<Rightarrow>
          (case dispatch env st1 operations of
             (Inl msg, st2) \<Rightarrow> (Inl msg, st2)
           | (Inr results, st2) \<Rightarrow> (Inr (result # results), st2)))"

definition block_commands :: "string \<Rightarrow> string list" where
  "block_commands capture = filter (\<lambda>c. c \<noteq> []) (map trim (block_lines capture))"

definition parse :: "string \<Rightarrow> operation list" where
  "parse text =
     map (StructuredBlock \<circ> snd) (structured_blocks text)
       @ map PlainCommand (concat (map (block_commands \<circ> snd) (plain_blocks text)))"

text \<open>Appending what a dispatch returns to the results collected so far.\<close>

definition collect ::
  "TerminalResult list \<Rightarrow> (string + TerminalResult list) \<times> engine_state
     \<Rightarrow> (string + TerminalResult list) \<times> engine_state" where
  "collect results out =
     (case out of
        (Inl msg, st1) \<Rightarrow> (Inl msg, st1)
      | (Inr rs, st1) \<Rightarrow> (Inr (results @ rs), st1))"

section \<open>A sample host\<close>

text \<open>
  A concrete environment for the examples. Its \<open>JSON.parse\<close> is a table of the four
  blocks that the examples use, with the objects that \<open>JSON.parse\<close> returns for them.
  Its \<open>exec\<close> answers \<open>pwd\<close> with a directory; \<open>sleep 60\<close> as Node does for a child
  that the timeout killed (an error whose \<open>code\<close> is \<open>null\<close>); \<open>yes\<close> as Node does
  for a child whose output passed \<open>maxBuffer\<close> (an error with code
  \<open>ERR_CHILD_PROCESS_STDIO_MAXBUFFER\<close> and the output cut at the bound); and anything
  else with exit code 127. Its \<open>spawn\<close> runs a child that writes one chunk of
  \<open>MAX_OUTPUT_SIZE + 1\<close> characters and exits with code 0.
\<close>

definition sample_child :: ChildProcess where
  "sample_child = \<lparr>pid = Some 4242, killed = False\<rparr>"

definition sample_parse :: "string \<Rightarrow> string + json" where
  \<open>sample_parse s =
     (if s = ''{"operation":"list_processes"}'' then
        Inr (JObj [(''operation'', JStr ''list_processes'')])
      else if s = ''{"operation":"execute"}'' then
        Inr (JObj [(''operation'', JStr ''execute'')])
      else if s = ''{"operation":"background"}'' then
        Inr (JObj [(''operation'', JStr ''background'')])
      else if s = ''{"operation":"background","command":"sleep 100"}'' then
        Inr (JObj [(''operation'', JStr ''background''), (''command'', JStr ''sleep 100'')])
      else Inl ''Unexpected token'')\<close>

definition sample_exec :: "nat \<Rightarrow> string \<Rightarrow> exec_options \<Rightarrow> exec_outcome" where
  "sample_exec n command opts =
     (if command = ''pwd'' then
        ExecCallback sample_child None (''/home/user'' @ [CHR 0x0A]) []
      else if command = ''sleep 60'' then
        ExecCallback sample_child
          (Some \<lparr>err_code = Some JNull, err_message = ''Command failed: sleep 60''\<rparr>) [] []
      else if command = ''yes'' then
        ExecCallback sample_child
          (Some \<lparr>err_code = Some (JStr ''ERR_CHILD_PROCESS_STDIO_MAXBUFFER''),
                 err_message = ''stdout maxBuffer length exceeded''\<rparr>)
          (replicate MAX_OUTPUT_SIZE CHR ''y'') []
      else
        ExecCallback sample_child
          (Some \<lparr>err_code = Some (JNum 127), err_message = ''Command failed''\<rparr>) []
          ''command not found'')"

definition sample_env :: environment where
  "sample_env =
     \<lparr>TERMINAL_BASE_DIR = ''/home/user'',
      process_env = [],
      path_resolve = (\<lambda>p. p),
      ensure_dir = (\<lambda>n d. None),
      run_exec = sample_exec,
      run_spawn = (\<lambda>n file args opts.
                     SpawnRan sample_child [replicate (Suc MAX_OUTPUT_SIZE) CHR ''y''] []
                       (Close (JNum 0))),
      os_kill = (\<lambda>p s. Delivered),
      elapsed = (\<lambda>p. 3),
      JSON_parse = sample_parse\<rparr>"

definition initial_state :: engine_state where
  "initial_state = \<lparr>activeProcesses = [], processCounter = 0, timers = [], signals = []\<rparr>"

definition sample_operations :: "operation list" where
  \<open>sample_operations = [StructuredBlock ''{"operation":"execute"}'', PlainCommand ''pwd'']\<close>

definition pwd_result :: TerminalResult where
  "pwd_result =
     \<lparr>success = True, stdout = ''/home/user'' @ [CHR 0x0A], stderr = [], exitCode = JNum 0,
      executionTime = 3, processId = Some ''proc_1'', workingDir = JStr ''/home/user''\<rparr>"

definition background_without_command :: string where
  \<open>background_without_command = ''```terminal {"operation":"background"} ```''\<close>

definition background_block :: string where
  \<open>background_block = ''```terminal {"operation":"background","command":"sleep 100"} ```''\<close>


definition kill_returns :: "environment \<Rightarrow> string \<Rightarrow> signal \<Rightarrow> bool" where
  "kill_returns env procId sig =
     (case os_kill env procId sig of KillThrew msg \<Rightarrow> False | _ \<Rightarrow> True)"

definition running_state :: engine_state where
  "running_state =
     \<lparr>activeProcesses = [(''proc_1'', sample_child)], processCounter = 1,
      timers = [(JNum 30000, TimeoutKill ''proc_1'')], signals = []\<rparr>"

definition killed_state :: engine_state where
  "killed_state =
     \<lparr>activeProcesses = [], processCounter = 1,
      timers = [(JNum 30000, TimeoutKill ''proc_1''), (JNum 5000, GraceKill ''proc_1'')],
      signals = [(''proc_1'', SIGTERM)]\<rparr>"


definition overflow_result :: TerminalResult where
  "overflow_result =
     \<lparr>success = False, stdout = replicate MAX_OUTPUT_SIZE CHR ''y'',
      stderr = ''stdout maxBuffer length exceeded'',
      exitCode = JStr ''ERR_CHILD_PROCESS_STDIO_MAXBUFFER'', executionTime = 3,
      processId = Some ''proc_1'', workingDir = JStr ''/home/user''\<rparr>"

definition unbounded_result :: TerminalResult where
  "unbounded_result =
     \<lparr>success = True, stdout = replicate (Suc MAX_OUTPUT_SIZE) CHR ''y'', stderr = [],
      exitCode = JNum 0, executionTime = 3, processId = Some ''proc_1'',
      workingDir = JStr ''/home/user''\<rparr>"

section \<open>Properties of the string functions\<close>

lemma startsWith_prefix: "startsWith s t \<longleftrightarrow> prefix t s"
  by (induction s t rule: startsWith.induct) auto

lemma str_includes_sublist: "str_includes s t \<longleftrightarrow> sublist t s"
  by (induction s) (auto simp: startsWith_prefix sublist_Cons_right)

lemma list_ex_startsWith:
  "list_ex (startsWith s) ps \<longleftrightarrow> list_ex (\<lambda>p. prefix p s) ps"
  by (simp add: list_ex_iff startsWith_prefix)

lemma dangerous_loop_None:
  "dangerous_loop ds lc = None \<longleftrightarrow> \<not> list_ex (\<lambda>d. sublist (toLowerCase d) lc) ds"
  by (induction ds) (auto simp: str_includes_sublist)

lemma dangerous_loop_Some:
  "dangerous_loop ds lc = Some d \<Longrightarrow> d \<in> set ds \<and> sublist (toLowerCase d) lc"
  by (induction ds) (auto simp: str_includes_sublist split: if_splits)

section \<open>Properties of the dispatcher\<close>

text \<open>
  With no options the working directory is the configured base directory, a string, and
  the command is a string: nothing that \<open>executeTerminalCommand\<close> calls outside its
  \<open>try\<close> can throw.
\<close>

lemma executeTerminalCommand_plain:
  "\<exists>r st'. executeTerminalCommand env st (JStr c) [] = (Inr r, st')"
  by (auto simp: executeTerminalCommand_def Let_def validateWorkingDir_def default_to_def
      split: option.splits sum.splits prod.splits)

lemma perform_total: "\<exists>r st'. perform env st operation = (Inr r, st')"
proof (cases operation)
  case (StructuredBlock capture)
  then show ?thesis by (simp split: prod.splits)
next
  case (PlainCommand c)
  then show ?thesis using executeTerminalCommand_plain [of env st c] by simp
qed

lemma dispatch_total:
  "\<exists>rs st'. dispatch env st ops = (Inr rs, st') \<and> length rs = length ops"
proof (induction ops arbitrary: st)
  case Nil
  then show ?case by simp
next
  case (Cons operation ops)
  obtain r st1 where p: "perform env st operation = (Inr r, st1)"
    using perform_total by blast
  obtain rs st2 where d: "dispatch env st1 ops = (Inr rs, st2)" "length rs = length ops"
    using Cons.IH by blast
  show ?case by (simp add: p d)
qed

lemma dispatch_append:
  "dispatch env st (xs @ ys) =
     (case dispatch env st xs of
        (Inl m, st1) \<Rightarrow> (Inl m, st1)
      | (Inr rs, st1) \<Rightarrow>
          (case dispatch env st1 ys of
             (Inl m, st2) \<Rightarrow> (Inl m, st2)
           | (Inr rs', st2) \<Rightarrow> (Inr (rs @ rs'), st2)))"
proof (induction xs arbitrary: st)
  case Nil
  then show ?case by (simp split: prod.splits sum.splits)
next
  case (Cons x xs)
  then show ?case by (simp split: prod.splits sum.splits)
qed

lemma command_loop_dispatch:
  "command_loop env (results, st) cmds =
     collect results (dispatch env st (map PlainCommand (filter (\<lambda>c. c \<noteq> []) (map trim cmds))))"
proof (induction cmds arbitrary: results st)
  case Nil
  then show ?case by (simp add: collect_def)
next
  case (Cons cmd cmds)
  then show ?case
    by (auto simp: collect_def Let_def split: prod.splits sum.splits)
qed

lemma simple_loop_dispatch:
  "simple_loop env (results, st) captures =
     collect results (dispatch env st (map PlainCommand (concat (map block_commands captures))))"
proof (induction captures arbitrary: results st)
  case Nil
  then show ?case by (simp add: collect_def)
next
  case (Cons capture captures)
  let ?here = "map PlainCommand (block_commands capture)"
  let ?rest = "map PlainCommand (concat (map block_commands captures))"
  obtain rs1 st1 where d1: "dispatch env st ?here = (Inr rs1, st1)"
    using dispatch_total [of env st ?here] by blast
  obtain rs2 st2 where d2: "dispatch env st1 ?rest = (Inr rs2, st2)"
    using dispatch_total [of env st1 ?rest] by blast
  have "command_loop env (results, st) (block_lines capture) = (Inr (results @ rs1), st1)"
    using d1 by (simp add: command_loop_dispatch collect_def block_commands_def)
  then have "simple_loop env (results, st) (capture # captures) = (Inr (results @ rs1 @ rs2), st2)"
    using d2 by (simp add: Cons.IH collect_def)
  moreover have "dispatch env st (?here @ ?rest) = (Inr (rs1 @ rs2), st2)"
    using d1 d2 by (simp add: dispatch_append)
  ultimately show ?case by (simp add: collect_def)
qed

lemma json_loop_dispatch:
  "dispatch env st (map StructuredBlock captures) = (Inr rs, st')
   \<Longrightarrow> json_loop env (results, st) captures = (results @ rs, st')"
proof (induction captures arbitrary: results st rs st')
  case Nil
  then show ?case by simp
next
  case (Cons capture captures)
  obtain r st1 where h: "handle_block env st capture = (r, st1)"
    by (cases "handle_block env st capture")
  obtain rs1 st2 where d: "dispatch env st1 (map StructuredBlock captures) = (Inr rs1, st2)"
    using dispatch_total [of env st1 "map StructuredBlock captures"] by blast
  have "rs = r # rs1" "st' = st2"
    using Cons.prems h d by simp_all
  then show ?case
    using Cons.IH [OF d, of "results @ [r]"] h by simp
qed

lemma executeTerminalCommands_dispatch:
  "executeTerminalCommands env st text = dispatch env st (parse text)"
proof -
  let ?js = "map StructuredBlock (map snd (structured_blocks text))"
  let ?ps = "map PlainCommand (concat (map block_commands (map snd (plain_blocks text))))"
  obtain rs1 st1 where d1: "dispatch env st ?js = (Inr rs1, st1)"
    using dispatch_total [of env st ?js] by blast
  obtain rs2 st2 where d2: "dispatch env st1 ?ps = (Inr rs2, st2)"
    using dispatch_total [of env st1 ?ps] by blast
  have "json_loop env ([], st) (map snd (structured_blocks text)) = (rs1, st1)"
    using json_loop_dispatch [OF d1, of "[]"] by simp
  then have "executeTerminalCommands env st text = (Inr (rs1 @ rs2), st2)"
    using d2 by (simp add: executeTerminalCommands_def simple_loop_dispatch collect_def)
  moreover have "dispatch env st (?js @ ?ps) = (Inr (rs1 @ rs2), st2)"
    using d1 d2 by (simp add: dispatch_append)
  ultimately show ?thesis by (simp add: parse_def)
qed

section \<open>Evaluation on the sample host\<close>

lemma show_nat_digit: "n < 10 \<Longrightarrow> show_nat n = [''0123456789'' ! n]"
  by (simp add: show_nat.simps)

lemmas string_eval = trim_def toLowerCase_def lower_char_def is_space_def

lemmas sample_eval = sample_env_def sample_exec_def sample_parse_def sample_child_def
  initial_state_def

lemmas regex_eval = structured_blocks_def plain_blocks_def match_json_def match_simple_def
  open_block_def block_tags_def fence_def close_json_def

lemma validate_pwd: "validateCommand ''pwd'' = \<lparr>safe = True, reason = None\<rparr>"
  by (simp add: validateCommand_def DANGEROUS_COMMANDS_def systemCommands_def string_eval)

lemma run_pwd:
  "executeTerminalCommand sample_env
     \<lparr>activeProcesses = [], processCounter = 0, timers = ts, signals = sg\<rparr> (JStr ''pwd'') [] =
    (Inr \<lparr>success = True, stdout = ''/home/user'' @ [CHR 0x0A], stderr = [], exitCode = JNum 0,
          executionTime = 3, processId = Some ''proc_1'', workingDir = JStr ''/home/user''\<rparr>,
     \<lparr>activeProcesses = [], processCounter = 1,
      timers = ts @ [(JNum 30000, TimeoutKill ''proc_1'')], signals = sg\<rparr>)"
  by (simp add: executeTerminalCommand_def Let_def validate_pwd default_to_def
      validateWorkingDir_def executeNonInteractiveCommand_def exec_call_def exec_result_def
      sample_eval show_nat_digit MAX_COMMAND_TIMEOUT_def)

lemma block_execute:
  \<open>handle_block sample_env st ''{"operation":"execute"}'' =
   (failure ''Execute operation requires command'' 0 None (JStr ''/home/user''), st)\<close>
  by (simp add: handle_block_def try_block_def run_operation_def Let_def sample_eval
      properties_def string_eval)

lemma dispatch_nth:
  "dispatch env st ops = (Inr rs, st') \<Longrightarrow> i < length ops \<Longrightarrow>
     fst (perform env (snd (dispatch env st (take i ops))) (ops ! i)) = Inr (rs ! i)"
proof (induction ops arbitrary: st rs i st')
  case Nil
  then show ?case by simp
next
  case (Cons operation ops)
  obtain r st1 where p: "perform env st operation = (Inr r, st1)"
    using perform_total by blast
  obtain rs1 st2 where d: "dispatch env st1 ops = (Inr rs1, st2)"
    using dispatch_total [of env st1 ops] by blast
  have rs: "rs = r # rs1"
    using Cons.prems(1) p d by simp
  show ?case
  proof (cases i)
    case 0
    then show ?thesis by (simp add: p rs)
  next
    case (Suc j)
    obtain rs2 st3 where t: "dispatch env st1 (take j ops) = (Inr rs2, st3)"
      using dispatch_total [of env st1 "take j ops"] by blast
    have "j < length ops"
      using Cons.prems(2) Suc by simp
    then have "fst (perform env (snd (dispatch env st1 (take j ops))) (ops ! j)) = Inr (rs1 ! j)"
      using Cons.IH [OF d] by simp
    then show ?thesis
      by (simp add: Suc p t rs)
  qed
qed

section \<open>Properties of the parser\<close>






lemma run_operation_execute_requires_command:
  "toLowerCase operation = ''execute'' \<Longrightarrow> \<not> truthy (map_of command ''command'') \<Longrightarrow>
     run_operation env st command operation =
       (Inr (failure ''Execute operation requires command'' 0 None
               (JStr (TERMINAL_BASE_DIR env))), st)"
  by (simp add: run_operation_def Let_def)

lemma run_operation_interactive_requires_command:
  "toLowerCase operation = ''interactive'' \<Longrightarrow> \<not> truthy (map_of command ''command'') \<Longrightarrow>
     run_operation env st command operation =
       (Inr (failure ''Interactive operation requires command'' 0 None
               (JStr (TERMINAL_BASE_DIR env))), st)"
  by (simp add: run_operation_def Let_def)

lemma run_operation_background:
  "toLowerCase operation = ''background'' \<Longrightarrow>
     run_operation env st command operation =
       (Inr (failure (''Unknown terminal operation: '' @ operation) 0 None
               (JStr (TERMINAL_BASE_DIR env))), st)"
  by (simp add: run_operation_def Let_def)







section \<open>Properties of the runner and the registry\<close>

lemma map_fst_map_entry: "map fst (AList.map_entry k f xs) = map fst xs"
  by (induction xs) auto

lemma map_of_map_entry_None:
  "map_of (AList.map_entry k f xs) k' = None \<longleftrightarrow> map_of xs k' = None"
  by (induction xs) auto

lemma child_kill_cases:
  "kill_returns env p sig \<Longrightarrow>
     \<exists>st1. child_kill env p sig st = Inr st1
       \<and> signals st1 = signals st @ [(p, sig)]
       \<and> timers st1 = timers st
       \<and> processCounter st1 = processCounter st
       \<and> map fst (activeProcesses st1) = map fst (activeProcesses st)
       \<and> (\<forall>k. map_of (activeProcesses st1) k = None \<longleftrightarrow> map_of (activeProcesses st) k = None)"
  by (cases "os_kill env p sig")
    (simp_all add: child_kill_def kill_returns_def map_fst_map_entry map_of_map_entry_None)

lemma fire_keeps_registry:
  "fire env cb st = Inr st1 \<Longrightarrow>
     map fst (activeProcesses st1) = map fst (activeProcesses st)
     \<and> processCounter st1 = processCounter st"
  by (cases cb; cases "os_kill env (case cb of TimeoutKill p \<Rightarrow> p | GraceKill p \<Rightarrow> p) SIGTERM";
      cases "os_kill env (case cb of TimeoutKill p \<Rightarrow> p | GraceKill p \<Rightarrow> p) SIGKILL")
    (auto simp: child_kill_def map_fst_map_entry split: if_splits)






lemma executeNonInteractiveCommand_callback:
  "run_exec env (processCounter st) c (exec_call env d t ev) = ExecCallback child error out err
   \<Longrightarrow> fst (executeNonInteractiveCommand env st c d p t ev)
        = Inr (exec_result (elapsed env p) p d error out err)"
  by (simp add: executeNonInteractiveCommand_def Let_def)



lemma killProcess_tracked:
  assumes "map_of (activeProcesses st) p = Some c" and "kill_returns env p SIGTERM"
  shows "\<exists>st1. child_kill env p SIGTERM st = Inr st1
           \<and> killProcess env st (JStr p) =
               (check_mark @ '' Process '' @ p @ '' terminated'',
                st1\<lparr>timers := timers st1 @ [(JNum 5000, GraceKill p)],
                    activeProcesses := AList.delete p (activeProcesses st1)\<rparr>)"
proof -
  obtain st1 where "child_kill env p SIGTERM st = Inr st1"
    using child_kill_cases [OF assms(2), of st] by blast
  then show ?thesis
    using assms(1) by (simp add: killProcess_def Let_def)
qed

lemma map_of_delete_same: "map_of (AList.delete k xs) k = None"
  by (induction xs) auto

lemma killProcess_grace_never_fires:
  assumes "map_of (activeProcesses st) p = Some c" and "kill_returns env p SIGTERM"
  shows "fire env (GraceKill p) (snd (killProcess env st (JStr p)))
           = Inr (snd (killProcess env st (JStr p)))
         \<and> signals (snd (killProcess env st (JStr p))) = signals st @ [(p, SIGTERM)]"
proof -
  obtain st1 where k: "child_kill env p SIGTERM st = Inr st1"
    "signals st1 = signals st @ [(p, SIGTERM)]"
    using child_kill_cases [OF assms(2), of st] by blast
  have "killProcess env st (JStr p) =
               (check_mark @ '' Process '' @ p @ '' terminated'',
                st1\<lparr>timers := timers st1 @ [(JNum 5000, GraceKill p)],
                    activeProcesses := AList.delete p (activeProcesses st1)\<rparr>)"
    using killProcess_tracked [OF assms] k(1) by auto
  then show ?thesis
    using k(2) by (simp add: map_of_delete_same)
qed

lemma map_fst_delete: "map fst (AList.delete k xs) = filter (\<lambda>k'. k' \<noteq> k) (map fst xs)"
  by (induction xs) auto

lemma MAX_OUTPUT_SIZE_pos: "0 < MAX_OUTPUT_SIZE"
  by (simp add: MAX_OUTPUT_SIZE_def)

lemma validate_yes: "validateCommand ''yes'' = \<lparr>safe = True, reason = None\<rparr>"
  by (simp add: validateCommand_def DANGEROUS_COMMANDS_def systemCommands_def string_eval)

lemma accumulate_concat: "accumulate chunks = concat chunks"
proof -
  have "foldl (\<lambda>acc data. acc @ data) a chunks = a @ concat chunks" for a
    by (induction chunks arbitrary: a) auto
  then show ?thesis by (simp add: accumulate_def)
qed




section \<open>Claims about the safety policy\<close>

text \<open>
  C1 (as amended). \<open>validateCommand c\<close> returns \<open>safe = false\<close>, with a reason, exactly
  when the lower-cased, trimmed command contains a deny-list entry (compared
  case-insensitively), or contains \<open>sudo su\<close> or \<open>su -\<close>, or \<^emph>\<open>begins with\<close> one of
  \<open>passwd\<close>, \<open>usermod\<close>, \<open>userdel\<close>, \<open>groupmod\<close>; for every other command it returns
  \<open>safe = true\<close> and no reason.
\<close>

theorem validateCommand_policy:
  "safe (validateCommand c) = (\<not> policy_rejects c)
   \<and> (reason (validateCommand c) = None) = (\<not> policy_rejects c)"
proof (cases "dangerous_loop DANGEROUS_COMMANDS (trim (toLowerCase c))")
  case None
  then show ?thesis
    using dangerous_loop_None [of DANGEROUS_COMMANDS "trim (toLowerCase c)"]
    by (simp add: validateCommand_def policy_rejects_def Let_def str_includes_sublist
        list_ex_startsWith)
next
  case (Some d)
  then show ?thesis
    using dangerous_loop_None [of DANGEROUS_COMMANDS "trim (toLowerCase c)"]
    by (simp add: validateCommand_def policy_rejects_def Let_def)
qed

theorem validateCommand_policy_witness:
  "policy_rejects ''echo hi; ReBoot'' \<and> \<not> safe (validateCommand ''echo hi; ReBoot'')
   \<and> \<not> policy_rejects ''ls -la'' \<and> safe (validateCommand ''ls -la'')"
proof -
  have "\<not> safe (validateCommand ''echo hi; ReBoot'')"
    by (simp add: validateCommand_def DANGEROUS_COMMANDS_def trim_def toLowerCase_def
        lower_char_def is_space_def)
  moreover have "safe (validateCommand ''ls -la'')"
    by (simp add: validateCommand_def DANGEROUS_COMMANDS_def systemCommands_def trim_def
        toLowerCase_def lower_char_def is_space_def)
  ultimately show ?thesis
    using validateCommand_policy [of "''echo hi; ReBoot''"]
      validateCommand_policy [of "''ls -la''"]
    by simp
qed

text \<open>
  C1 as stated fails at the command \<open>passwdx\<close>: it contains no deny-list entry and no
  privilege-escalation substring, and its leading token \<open>passwdx\<close> is none of the four
  account-modification commands, so the claim promises \<open>safe = true\<close>; the code rejects
  it, because it tests \<open>startsWith\<close>.
\<close>

theorem validateCommand_leading_token_counterexample:
  "\<not> spec_rejects ''passwdx'' \<and> safe (validateCommand ''passwdx'') = False"
proof -
  have "\<not> spec_rejects ''passwdx''"
    by (simp add: spec_rejects_def Let_def leading_token_def DANGEROUS_COMMANDS_def
        systemCommands_def trim_def toLowerCase_def lower_char_def is_space_def
        str_includes_sublist [symmetric])
  moreover have "safe (validateCommand ''passwdx'') = False"
    by (simp add: validateCommand_def DANGEROUS_COMMANDS_def systemCommands_def trim_def
        toLowerCase_def lower_char_def is_space_def)
  ultimately show ?thesis by simp
qed

section \<open>Claims about the dispatcher\<close>

text \<open>
  C2. The function works through the operations of a text exactly as \<open>dispatch\<close> does,
  and for every sequence of operations \<open>dispatch\<close> returns results and never an
  exception, whatever the environment reports or throws; it returns as many results as
  there are operations; and the result at each index is the one that \<open>perform\<close> gives
  for the operation at that index, in the state the earlier operations left, whether
  those succeeded or failed.
\<close>

theorem dispatch_total_in_order:
  "executeTerminalCommands env st text = dispatch env st (parse text)
   \<and> (\<exists>results st'. dispatch env st ops = (Inr results, st')
         \<and> length results = length ops
         \<and> (\<forall>i<length ops.
               fst (perform env (snd (dispatch env st (take i ops))) (ops ! i))
                 = Inr (results ! i)))"
proof -
  obtain rs st' where d: "dispatch env st ops = (Inr rs, st')" "length rs = length ops"
    using dispatch_total [of env st ops] by blast
  show ?thesis
    using d dispatch_nth [OF d(1)] by (simp add: executeTerminalCommands_dispatch)
qed

theorem dispatch_total_in_order_witness:
  "fst (dispatch sample_env initial_state sample_operations)
     = Inr [failure ''Execute operation requires command'' 0 None (JStr ''/home/user''),
            pwd_result]
   \<and> (1::nat) < length sample_operations
   \<and> fst (perform sample_env
             (snd (dispatch sample_env initial_state (take 1 sample_operations)))
             (sample_operations ! 1)) = Inr pwd_result"
proof -
  have d: "fst (dispatch sample_env initial_state sample_operations)
     = Inr [failure ''Execute operation requires command'' 0 None (JStr ''/home/user''),
            pwd_result]"
    by (simp add: sample_operations_def block_execute initial_state_def run_pwd
        pwd_result_def)
  have l: "(1::nat) < length sample_operations"
    by (simp add: sample_operations_def)
  obtain results st' where
    r: "dispatch sample_env initial_state sample_operations = (Inr results, st')"
    and n: "\<forall>i<length sample_operations.
               fst (perform sample_env
                      (snd (dispatch sample_env initial_state (take i sample_operations)))
                      (sample_operations ! i)) = Inr (results ! i)"
    using dispatch_total_in_order [of sample_env initial_state "[]" sample_operations]
    by blast
  have "results ! 1 = pwd_result"
    using d r by simp
  then show ?thesis
    using d l n by auto
qed

text \<open>
  C5. A structured block \<open>{"operation":"background"}\<close>, with no command, is not
  answered with a message about the missing command: the \<open>switch\<close> has no case for
  \<open>background\<close>, so the block gets the result of an unknown operation. Nothing is
  spawned and the state is unchanged.
\<close>

theorem background_without_command_unknown:
  "executeTerminalCommands sample_env st background_without_command =
     (Inr [failure ''Unknown terminal operation: background'' 0 None (JStr ''/home/user'')],
      st)"
  by (simp add: executeTerminalCommands_def background_without_command_def regex_eval
      handle_block_def try_block_def run_operation_def Let_def sample_eval properties_def
      string_eval)

text \<open>
  C6. A structured block \<open>{"operation":"background","command":"sleep 100"}\<close> starts
  nothing: it gets the result of an unknown operation, with \<open>success = false\<close> and no
  process id, and the registry and the counter are as before.
\<close>

theorem background_operation_unknown:
  "executeTerminalCommands sample_env st background_block =
     (Inr [failure ''Unknown terminal operation: background'' 0 None (JStr ''/home/user'')],
      st)"
  by (simp add: executeTerminalCommands_def background_block_def regex_eval
      handle_block_def try_block_def run_operation_def Let_def sample_eval properties_def
      string_eval)




section \<open>Claims about the command runner\<close>




text \<open>
  C8 (as amended). In execute mode the bound of 1 MiB is handed to \<open>exec\<close> as
  \<open>maxBuffer\<close>; the result's \<open>stdout\<close> is the text that \<open>exec\<close> delivers, with
  nothing added; and whenever \<open>exec\<close> reports an error whose code is not 0, as it
  does when the output passes the bound, the result has \<open>success = false\<close>.
\<close>

theorem execute_output_cap:
  "exec_maxBuffer (exec_call env d t ev) = 1048576
   \<and> (run_exec env (processCounter st) c (exec_call env d t ev)
         = ExecCallback child error out err \<longrightarrow>
       (\<exists>r. fst (executeNonInteractiveCommand env st c d p t ev) = Inr r
          \<and> stdout r = out
          \<and> (\<forall>e. error = Some e \<and> err_code e \<noteq> Some (JNum 0) \<longrightarrow> \<not> success r)))"
  by (auto simp: exec_call_def MAX_OUTPUT_SIZE_def executeNonInteractiveCommand_callback
      exec_result_def)

theorem execute_output_cap_witness:
  "run_exec sample_env (processCounter initial_state) ''yes''
       (exec_call sample_env ''/home/user'' (JNum 30000) (JObj []))
     = ExecCallback sample_child
         (Some \<lparr>err_code = Some (JStr ''ERR_CHILD_PROCESS_STDIO_MAXBUFFER''),
                err_message = ''stdout maxBuffer length exceeded''\<rparr>)
         (replicate MAX_OUTPUT_SIZE CHR ''y'') []
   \<and> (\<exists>r. fst (executeNonInteractiveCommand sample_env initial_state ''yes'' ''/home/user''
                  ''proc_1'' (JNum 30000) (JObj [])) = Inr r
          \<and> stdout r = replicate MAX_OUTPUT_SIZE CHR ''y'' \<and> \<not> success r)"
proof -
  have h: "run_exec sample_env (processCounter initial_state) ''yes''
       (exec_call sample_env ''/home/user'' (JNum 30000) (JObj []))
     = ExecCallback sample_child
         (Some \<lparr>err_code = Some (JStr ''ERR_CHILD_PROCESS_STDIO_MAXBUFFER''),
                err_message = ''stdout maxBuffer length exceeded''\<rparr>)
         (replicate MAX_OUTPUT_SIZE CHR ''y'') []"
    by (simp add: sample_env_def sample_exec_def)
  show ?thesis
    using h execute_output_cap [of sample_env "''/home/user''" "JNum 30000" "JObj []"
        initial_state "''yes''" sample_child
        "Some \<lparr>err_code = Some (JStr ''ERR_CHILD_PROCESS_STDIO_MAXBUFFER''),
                err_message = ''stdout maxBuffer length exceeded''\<rparr>"
        "replicate MAX_OUTPUT_SIZE CHR ''y''" "[]" "''proc_1''"]
    by auto
qed

text \<open>
  C8 as stated fails in both modes. In execute mode a command whose output passes the
  bound gets \<open>success = false\<close> and a \<open>stdout\<close> without any marker; in interactive
  mode nothing bounds the capture, and a chunk of \<open>MAX_OUTPUT_SIZE + 1\<close> characters
  is returned whole.
\<close>

theorem output_cap_counterexample:
  "fst (executeTerminalCommand sample_env initial_state (JStr ''yes'') []) = Inr overflow_result
   \<and> success overflow_result = False
   \<and> stdout overflow_result = replicate MAX_OUTPUT_SIZE CHR ''y''
   \<and> fst (executeTerminalCommand sample_env initial_state (JStr ''yes'')
            [(''interactive'', JBool True)]) = Inr unbounded_result
   \<and> success unbounded_result = True
   \<and> MAX_OUTPUT_SIZE < length (stdout unbounded_result)"
proof -
  have a: "fst (executeTerminalCommand sample_env initial_state (JStr ''yes'') [])
             = Inr overflow_result"
    using MAX_OUTPUT_SIZE_pos
    by (simp add: executeTerminalCommand_def Let_def validate_yes default_to_def
        validateWorkingDir_def executeNonInteractiveCommand_def exec_call_def exec_result_def
        sample_eval show_nat_digit overflow_result_def MAX_COMMAND_TIMEOUT_def)
  have b: "fst (executeTerminalCommand sample_env initial_state (JStr ''yes'')
            [(''interactive'', JBool True)]) = Inr unbounded_result"
    by (simp add: executeTerminalCommand_def Let_def validate_yes default_to_def
        validateWorkingDir_def executeInteractiveCommand_def spawn_call_def accumulate_concat
        sample_eval show_nat_digit unbounded_result_def MAX_COMMAND_TIMEOUT_def)
  show ?thesis
    using a b by (simp add: overflow_result_def unbounded_result_def)
qed



section \<open>Claims about the process registry\<close>

text \<open>
  C4. \<open>killProcess\<close> on a tracked process sends \<open>SIGTERM\<close>, schedules the grace
  callback and deletes the registry entry before it returns. When the grace callback
  runs, the entry is gone, so it sends nothing: \<open>SIGKILL\<close> is never sent, whether or
  not the process has exited.
\<close>

theorem killProcess_never_escalates:
  "killProcess sample_env running_state (JStr ''proc_1'')
     = (check_mark @ '' Process proc_1 terminated'', killed_state)
   \<and> fire sample_env (GraceKill ''proc_1'') killed_state = Inr killed_state
   \<and> signals killed_state = [(''proc_1'', SIGTERM)]"
  by (simp add: killProcess_def child_kill_def Let_def running_state_def killed_state_def
      sample_env_def)

text \<open>
  C10. When \<open>killProcess\<close> is called on a tracked id and \<open>kill\<close> does not throw, it
  reports success, and in the state it returns the id is not in the registry: the keys
  are those of before without the id, and a \<open>list_processes\<close> operation run in that
  state prints the listing of that registry. This holds for every environment, so
  whatever became of the process itself.
\<close>

theorem killProcess_removes_entry:
  assumes "map_of (activeProcesses st) p = Some c" and "kill_returns env p SIGTERM"
  shows "fst (killProcess env st (JStr p)) = check_mark @ '' Process '' @ p @ '' terminated''
         \<and> map_of (activeProcesses (snd (killProcess env st (JStr p)))) p = None
         \<and> map fst (activeProcesses (snd (killProcess env st (JStr p))))
             = filter (\<lambda>k. k \<noteq> p) (map fst (activeProcesses st))
         \<and> (\<exists>r. fst (run_operation env (snd (killProcess env st (JStr p))) command
                      ''list_processes'') = Inr r
                \<and> stdout r = listActiveProcesses (snd (killProcess env st (JStr p))))"
proof -
  obtain st1 where k: "child_kill env p SIGTERM st = Inr st1"
    "map fst (activeProcesses st1) = map fst (activeProcesses st)"
    using child_kill_cases [OF assms(2), of st] by blast
  have "killProcess env st (JStr p) =
               (check_mark @ '' Process '' @ p @ '' terminated'',
                st1\<lparr>timers := timers st1 @ [(JNum 5000, GraceKill p)],
                    activeProcesses := AList.delete p (activeProcesses st1)\<rparr>)"
    using killProcess_tracked [OF assms] k(1) by auto
  then show ?thesis
    using k(2)
    by (simp add: map_of_delete_same map_fst_delete run_operation_def Let_def string_eval)
qed

theorem killProcess_removes_entry_witness:
  "map_of (activeProcesses running_state) ''proc_1'' = Some sample_child
   \<and> kill_returns sample_env ''proc_1'' SIGTERM
   \<and> map fst (activeProcesses (snd (killProcess sample_env running_state (JStr ''proc_1'')))) = []
   \<and> listActiveProcesses (snd (killProcess sample_env running_state (JStr ''proc_1'')))
       = clipboard @ '' No active processes''"
proof -
  have h1: "map_of (activeProcesses running_state) ''proc_1'' = Some sample_child"
    by (simp add: running_state_def)
  have h2: "kill_returns sample_env ''proc_1'' SIGTERM"
    by (simp add: kill_returns_def sample_env_def)
  have "map fst (activeProcesses (snd (killProcess sample_env running_state (JStr ''proc_1''))))
          = filter (\<lambda>k. k \<noteq> ''proc_1'') (map fst (activeProcesses running_state))"
    using killProcess_removes_entry [OF h1 h2, of "[]"] by blast
  then have e: "activeProcesses (snd (killProcess sample_env running_state (JStr ''proc_1''))) = []"
    by (simp add: running_state_def)
  show ?thesis
    using h1 h2 e by (simp add: listActiveProcesses_def)
qed

end
